theory Spec2Isabelle
  imports Complex_Main "HOL-Library.Signed_Division"
begin

section \<open>Data model of BusBookingSystem.cpp\<close>

text \<open>
  \<^verbatim>\<open>struct Seat { std::string passengerName; double fare; }\<close>.
  The program stores and prints fares but never computes with them; the only values
  written are the literals 0.0 and 300.0, so \<open>fare\<close> is kept as a number of
  type \<open>real\<close>.
\<close>

record Seat =
  passengerName :: string
  fare :: real

text \<open>\<^verbatim>\<open>Seat() : passengerName("Empty"), fare(0.0) {}\<close>\<close>

definition Seat_ctor :: Seat where
  "Seat_ctor = \<lparr>passengerName = ''Empty'', fare = 0\<rparr>"

text \<open>
  \<^verbatim>\<open>class Bus\<close>: six strings and \<^verbatim>\<open>std::vector<std::vector<Seat>> seats\<close>.
  The members \<^verbatim>\<open>from\<close> and \<^verbatim>\<open>to\<close> carry a suffix since \<open>from\<close> is a keyword.
\<close>

record Bus =
  busNumber :: string
  driverName :: string
  arrivalTime :: string
  departureTime :: string
  from_loc :: string
  to_loc :: string
  seats :: "Seat list list"

text \<open>
  \<^verbatim>\<open>Bus::Bus() : seats(8, std::vector<Seat>(4))\<close>, followed by the loop that sets
  every fare to 300.0. The string members are default-constructed (empty).
\<close>

definition Bus_ctor :: Bus where
  "Bus_ctor =
     \<lparr>busNumber = [], driverName = [], arrivalTime = [], departureTime = [],
      from_loc = [], to_loc = [],
      seats = map (map (\<lambda>seat. seat\<lparr>fare := 300\<rparr>)) (replicate 8 (replicate 4 Seat_ctor))\<rparr>"

definition getBusNumber :: "Bus \<Rightarrow> string" where
  "getBusNumber b = busNumber b"

definition matchesRoute :: "Bus \<Rightarrow> string \<Rightarrow> string \<Rightarrow> bool" where
  "matchesRoute b origin dest \<longleftrightarrow> from_loc b = origin \<and> to_loc b = dest"

subsection \<open>Seat addressing\<close>

text \<open>
  \<^verbatim>\<open>int row = (seatNumber - 1) / 4; int col = (seatNumber - 1) % 4;\<close>
  C++ division truncates towards zero: \<open>sdiv\<close> and \<open>smod\<close> on \<open>int\<close>.
  The subtraction cannot overflow where the program performs it (after the range check),
  and \<^verbatim>\<open>getSeat\<close>, which has no range check, is never called.
\<close>

definition seat_row :: "int \<Rightarrow> int" where
  "seat_row seatNumber = (seatNumber - 1) sdiv 4"

definition seat_col :: "int \<Rightarrow> int" where
  "seat_col seatNumber = (seatNumber - 1) smod 4"

text \<open>
  \<^verbatim>\<open>seats[row][col]\<close> on a vector is undefined outside the vector's bounds; the model
  makes that case visible as \<open>None\<close>.
\<close>

definition seat_at :: "Bus \<Rightarrow> int \<Rightarrow> int \<Rightarrow> Seat option" where
  "seat_at b row col =
     (if 0 \<le> row \<and> nat row < length (seats b) then
        (let r = seats b ! nat row in
         if 0 \<le> col \<and> nat col < length r then Some (r ! nat col) else None)
      else None)"

text \<open>\<^verbatim>\<open>seats[row][col].passengerName = name\<close>, for a position inside the grid.\<close>

definition set_passengerName :: "Bus \<Rightarrow> int \<Rightarrow> int \<Rightarrow> string \<Rightarrow> Bus" where
  "set_passengerName b row col name =
     b\<lparr>seats := (seats b)[nat row :=
          (seats b ! nat row)[nat col := (seats b ! nat row ! nat col)\<lparr>passengerName := name\<rparr>]]\<rparr>"

text \<open>
  \<^verbatim>\<open>Seat& Bus::getSeat(int seatNumber)\<close>: the seat a seat number addresses, if the
  vectors hold it.
\<close>

definition getSeat :: "Bus \<Rightarrow> int \<Rightarrow> Seat option" where
  "getSeat b seatNumber = seat_at b (seat_row seatNumber) (seat_col seatNumber)"

text \<open>
  \<^verbatim>\<open>std::find_if(busList.begin(), busList.end(), pred)\<close>: the iterator is the index of
  the first element satisfying the predicate, \<open>None\<close> is \<^verbatim>\<open>busList.end()\<close>.
\<close>

fun find_if :: "('a \<Rightarrow> bool) \<Rightarrow> 'a list \<Rightarrow> nat option" where
  "find_if P [] = None"
| "find_if P (x # xs) = (if P x then Some 0 else map_option Suc (find_if P xs))"

subsection \<open>Console input and results\<close>

text \<open>
  \<^verbatim>\<open>std::cin >> seatNumber\<close> either fails (text that is not an \<^verbatim>\<open>int\<close>) or stores a
  value in the \<^verbatim>\<open>int\<close> variable.
\<close>

datatype cin_int = ExtractFailed | Extracted int

text \<open>
  Each operation prints one message and returns; the result names the message:
  \<^item> \<open>Cancelled\<close>: "Operation cancelled."
  \<^item> \<open>NotFound\<close>: "Bus not found."
  \<^item> \<open>InvalidInput\<close>: "Invalid input. Operation cancelled."
  \<^item> \<open>InvalidSeat\<close>: "Invalid seat number. Please enter a number between 1 and 32."
  \<^item> \<open>AlreadyReserved n\<close>: "That seat is already reserved by n!"
  \<^item> \<open>Reserved seat passenger cost\<close>: "Seat ... reserved successfully for ... Fare: Rs. ..."
  \<^item> \<open>AlreadyEmpty\<close>: "This seat is already empty."
  \<^item> \<open>Aborted\<close>: "Cancellation aborted."
  \<^item> \<open>Released seat\<close>: "Reservation for seat ... has been cancelled."
  \<^item> \<open>OutOfGrid\<close>: no message; an access outside the seat vectors.
\<close>

datatype outcome =
    Cancelled
  | NotFound
  | InvalidInput
  | InvalidSeat
  | AlreadyReserved string
  | Reserved int string real
  | AlreadyEmpty
  | Aborted
  | Released int
  | OutOfGrid

subsection \<open>Bus::allotment\<close>

text \<open>
  The arguments after the registry are the answers to the three prompts, in order: the
  bus number line, the seat number extraction and the passenger line. The method never
  touches its receiver (\<^verbatim>\<open>dummy\<close>), only the global \<^verbatim>\<open>busList\<close>.
\<close>

definition allotment :: "Bus list \<Rightarrow> string \<Rightarrow> cin_int \<Rightarrow> string \<Rightarrow> outcome \<times> Bus list" where
  "allotment busList number seatInput passenger =
     (if number = ''0'' \<or> number = [] then (Cancelled, busList)
      else case find_if (\<lambda>b. getBusNumber b = number) busList of
        None \<Rightarrow> (NotFound, busList)
      | Some it \<Rightarrow>
          (case seatInput of
             ExtractFailed \<Rightarrow> (InvalidInput, busList)
           | Extracted seatNumber \<Rightarrow>
               if seatNumber = 0 then (Cancelled, busList)
               else if seatNumber < 1 \<or> seatNumber > 32 then (InvalidSeat, busList)
               else
                 (let row = seat_row seatNumber; col = seat_col seatNumber in
                  case seat_at (busList ! it) row col of
                    None \<Rightarrow> (OutOfGrid, busList)
                  | Some s \<Rightarrow>
                      if passengerName s \<noteq> ''Empty''
                      then (AlreadyReserved (passengerName s), busList)
                      else if passenger = ''0'' \<or> passenger = [] then (Cancelled, busList)
                      else (Reserved seatNumber passenger (fare s),
                            busList[it := set_passengerName (busList ! it) row col passenger]))))"

subsection \<open>Bus::cancelSeat\<close>

text \<open>\<^verbatim>\<open>tolower\<close> in the C locale: only \<^verbatim>\<open>'A'..'Z'\<close> change.\<close>

definition tolower :: "char \<Rightarrow> char" where
  "tolower c =
     (case map_of (zip ''ABCDEFGHIJKLMNOPQRSTUVWXYZ'' ''abcdefghijklmnopqrstuvwxyz'') c of
        Some l \<Rightarrow> l
      | None \<Rightarrow> c)"

definition cancelSeat :: "Bus list \<Rightarrow> string \<Rightarrow> cin_int \<Rightarrow> char \<Rightarrow> outcome \<times> Bus list" where
  "cancelSeat busList number seatInput confirm =
     (if number = ''0'' \<or> number = [] then (Cancelled, busList)
      else case find_if (\<lambda>b. getBusNumber b = number) busList of
        None \<Rightarrow> (NotFound, busList)
      | Some it \<Rightarrow>
          (case seatInput of
             ExtractFailed \<Rightarrow> (InvalidInput, busList)
           | Extracted seatNumber \<Rightarrow>
               if seatNumber = 0 then (Cancelled, busList)
               else if seatNumber < 1 \<or> seatNumber > 32 then (InvalidSeat, busList)
               else
                 (let row = seat_row seatNumber; col = seat_col seatNumber in
                  case seat_at (busList ! it) row col of
                    None \<Rightarrow> (OutOfGrid, busList)
                  | Some s \<Rightarrow>
                      if passengerName s = ''Empty'' then (AlreadyEmpty, busList)
                      else if tolower confirm \<noteq> CHR ''y'' then (Aborted, busList)
                      else (Released seatNumber,
                            busList[it := set_passengerName (busList ! it) row col ''Empty'']))))"

subsection \<open>Bus::install and case 1 of main\<close>

text \<open>
  The six string arguments are the answers to the six prompts, in order; an answer after
  the prompt that cancels is never read. Each \<^verbatim>\<open>getline\<close> stores into the member before
  the test, and a cancelling branch clears the members listed in the source.
\<close>

definition install ::
  "Bus \<Rightarrow> string \<Rightarrow> string \<Rightarrow> string \<Rightarrow> string \<Rightarrow> string \<Rightarrow> string \<Rightarrow> Bus" where
  "install this number driver arrival departure origin dest =
     (let b1 = this\<lparr>busNumber := number\<rparr> in
      if busNumber b1 = ''0'' \<or> busNumber b1 = [] then b1\<lparr>busNumber := []\<rparr>
      else
        let b2 = b1\<lparr>driverName := driver\<rparr> in
        if driverName b2 = ''0'' \<or> driverName b2 = [] then b2\<lparr>busNumber := []\<rparr>
        else
          let b3 = b2\<lparr>arrivalTime := arrival\<rparr> in
          if arrivalTime b3 = ''0'' \<or> arrivalTime b3 = []
          then b3\<lparr>busNumber := [], driverName := []\<rparr>
          else
            let b4 = b3\<lparr>departureTime := departure\<rparr> in
            if departureTime b4 = ''0'' \<or> departureTime b4 = []
            then b4\<lparr>busNumber := [], driverName := [], arrivalTime := []\<rparr>
            else
              let b5 = b4\<lparr>from_loc := origin\<rparr> in
              if from_loc b5 = ''0'' \<or> from_loc b5 = []
              then b5\<lparr>busNumber := [], driverName := [], arrivalTime := [],
                      departureTime := []\<rparr>
              else
                let b6 = b5\<lparr>to_loc := dest\<rparr> in
                if to_loc b6 = ''0'' \<or> to_loc b6 = []
                then b6\<lparr>busNumber := [], driverName := [], arrivalTime := [],
                        departureTime := [], from_loc := []\<rparr>
                else b6)"

text \<open>
  \<^verbatim>\<open>case 1: { Bus newBus; newBus.install();
            if(!newBus.getBusNumber().empty()) busList.push_back(newBus); }\<close>
\<close>

definition install_new_bus ::
  "Bus list \<Rightarrow> string \<Rightarrow> string \<Rightarrow> string \<Rightarrow> string \<Rightarrow> string \<Rightarrow> string \<Rightarrow> Bus list" where
  "install_new_bus busList number driver arrival departure origin dest =
     (let newBus = install Bus_ctor number driver arrival departure origin dest in
      if getBusNumber newBus \<noteq> [] then busList @ [newBus] else busList)"

subsection \<open>Bus::show, Bus::printBasicInfo and searchBusesByRoute\<close>

text \<open>
  The two nested loops of \<^verbatim>\<open>show\<close> (\<^verbatim>\<open>i < 8\<close>, \<^verbatim>\<open>j < 4\<close>) carry \<^verbatim>\<open>seatIndex\<close>,
  \<^verbatim>\<open>emptyCount\<close> and the lines printed so far. A seat line is the seat index, the name
  printed (the literal "Empty" for a seat whose name is "Empty") and the fare.
\<close>

type_synonym show_state = "int \<times> nat \<times> (int \<times> string \<times> real) list"

definition show_seat :: "Bus \<Rightarrow> nat \<Rightarrow> nat \<Rightarrow> show_state option \<Rightarrow> show_state option" where
  "show_seat b i j st =
     (case st of
        None \<Rightarrow> None
      | Some (seatIndex, emptyCount, out) \<Rightarrow>
          (case seat_at b (int i) (int j) of
             None \<Rightarrow> None
           | Some s \<Rightarrow>
               if passengerName s = ''Empty''
               then Some (seatIndex + 1, emptyCount + 1, out @ [(seatIndex, ''Empty'', fare s)])
               else Some (seatIndex + 1, emptyCount, out @ [(seatIndex, passengerName s, fare s)])))"

definition show_details :: "Bus \<Rightarrow> ((int \<times> string \<times> real) list \<times> nat) option" where
  "show_details b =
     map_option (\<lambda>(seatIndex, emptyCount, out). (out, emptyCount))
       (fold (\<lambda>i. fold (show_seat b i) [0..<4]) [0..<8] (Some (1, 0, [])))"

text \<open>The values \<^verbatim>\<open>printBasicInfo\<close> prints, in order; the route is one line.\<close>

definition printBasicInfo :: "Bus \<Rightarrow> string list" where
  "printBasicInfo b =
     [busNumber b, driverName b, arrivalTime b, departureTime b,
      from_loc b @ '' -> '' @ to_loc b]"

datatype search_output =
    NoBusesAvailable
  | SearchCancelled
  | NoMatchingBuses string string
  | Printed "Bus list"

text \<open>
  The loop of \<^verbatim>\<open>searchBusesByRoute\<close> with its flag \<^verbatim>\<open>foundAny\<close>; the second component
  collects the buses whose \<^verbatim>\<open>printBasicInfo\<close> has been called.
\<close>

fun search_loop :: "Bus list \<Rightarrow> string \<Rightarrow> string \<Rightarrow> bool \<times> Bus list \<Rightarrow> bool \<times> Bus list" where
  "search_loop [] origin destination acc = acc"
| "search_loop (b # bs) origin destination (foundAny, shown) =
     (if matchesRoute b origin destination
      then search_loop bs origin destination (True, shown @ [b])
      else search_loop bs origin destination (foundAny, shown))"

definition searchBusesByRoute :: "Bus list \<Rightarrow> string \<Rightarrow> string \<Rightarrow> search_output" where
  "searchBusesByRoute busList origin destination =
     (if busList = [] then NoBusesAvailable
      else if origin = ''0'' \<or> origin = [] then SearchCancelled
      else if destination = ''0'' \<or> destination = [] then SearchCancelled
      else
        (case search_loop busList origin destination (False, []) of
           (foundAny, shown) \<Rightarrow>
             if \<not> foundAny then NoMatchingBuses origin destination else Printed shown))"

text \<open>The buses a search has printed: none unless the loop found one.\<close>

fun buses_printed :: "search_output \<Rightarrow> Bus list" where
  "buses_printed (Printed shown) = shown"
| "buses_printed _ = []"

subsection \<open>The menu loop of main\<close>

text \<open>
  One constructor per menu choice, with the answers to that choice's prompts. Choice 7
  leaves the loop and is not a step.
\<close>

datatype command =
    InstallNewBus string string string string string string
  | ReserveSeat string cin_int string
  | ShowBusDetails string
  | ShowAllBuses
  | CancelASeat string cin_int char
  | SearchByRoute string string
  | InvalidChoice

text \<open>
  The effect of one iteration on \<^verbatim>\<open>busList\<close>. Cases 3, 4 and 6 call only \<^verbatim>\<open>const\<close>
  methods and loops over \<^verbatim>\<open>const auto &\<close>; they leave \<^verbatim>\<open>busList\<close> as it is.
\<close>

fun main_step :: "command \<Rightarrow> Bus list \<Rightarrow> Bus list" where
  "main_step (InstallNewBus number driver arrival departure origin dest) busList =
     install_new_bus busList number driver arrival departure origin dest"
| "main_step (ReserveSeat number seatInput passenger) busList =
     (if busList = [] then busList else snd (allotment busList number seatInput passenger))"
| "main_step (CancelASeat number seatInput confirm) busList =
     (if busList = [] then busList else snd (cancelSeat busList number seatInput confirm))"
| "main_step _ busList = busList"

fun run :: "command list \<Rightarrow> Bus list \<Rightarrow> Bus list" where
  "run [] busList = busList"
| "run (c # cs) busList = run cs (main_step c busList)"

subsection \<open>Properties of registries\<close>

text \<open>
  The members of \<^verbatim>\<open>Bus\<close> are private, so a bus in \<^verbatim>\<open>busList\<close> is always one that the
  constructor built, \<^verbatim>\<open>install\<close> completed and the two seat operations changed. The
  predicates below say what that means; the menu loop keeps them (lemmas \<open>run_keeps\<close>
  and \<open>run_registry_ok\<close>).

  The seat vectors have the shape the constructor gives them: 8 rows of 4.
\<close>

definition grid_ok :: "Bus \<Rightarrow> bool" where
  "grid_ok b \<longleftrightarrow> length (seats b) = 8 \<and> (\<forall>r \<in> set (seats b). length r = 4)"

text \<open>The six strings are what a completed \<^verbatim>\<open>install\<close> leaves: not empty, not "0".\<close>

definition fields_ok :: "Bus \<Rightarrow> bool" where
  "fields_ok b \<longleftrightarrow>
     (\<forall>f \<in> set [busNumber b, driverName b, arrivalTime b, departureTime b, from_loc b, to_loc b].
        f \<noteq> ''0'' \<and> f \<noteq> [])"

definition registry_ok :: "Bus list \<Rightarrow> bool" where
  "registry_ok busList \<longleftrightarrow> (\<forall>b \<in> set busList. grid_ok b \<and> fields_ok b)"

definition fares_default :: "Bus \<Rightarrow> bool" where
  "fares_default b \<longleftrightarrow> (\<forall>r \<in> set (seats b). \<forall>s \<in> set r. fare s = 300)"

text \<open>A bus used in the examples: "B1", Delhi to Agra.\<close>

definition busB1 :: Bus where
  "busB1 = install Bus_ctor ''B1'' ''Ravi'' ''09:00'' ''10:00'' ''Delhi'' ''Agra''"

text \<open>The registry after installing that bus and reserving seat 5 for "Alice".\<close>

definition registryAlice :: "Bus list" where
  "registryAlice =
     run [InstallNewBus ''B1'' ''Ravi'' ''09:00'' ''10:00'' ''Delhi'' ''Agra'',
          ReserveSeat ''B1'' (Extracted 5) ''Alice''] []"

section \<open>Auxiliary facts\<close>

lemma seat_row_div: "1 \<le> n \<Longrightarrow> seat_row n = (n - 1) div 4"
  by (simp add: seat_row_def signed_divide_int_def sgn_if)

lemma seat_col_mod: "1 \<le> n \<Longrightarrow> seat_col n = (n - 1) mod 4"
  by (simp add: seat_col_def signed_modulo_int_def sgn_if)

lemma tolower_y_iff: "tolower c = CHR ''y'' \<longleftrightarrow> c = CHR ''y'' \<or> c = CHR ''Y''"
  by (auto simp: tolower_def split: if_splits)

lemma find_if_Some:
  "find_if P xs = Some i \<Longrightarrow> i < length xs \<and> P (xs ! i) \<and> (\<forall>j<i. \<not> P (xs ! j))"
proof (induction xs arbitrary: i)
  case Nil
  then show ?case by simp
next
  case (Cons x xs)
  show ?case
  proof (cases "P x")
    case True
    with Cons.prems show ?thesis by simp
  next
    case False
    with Cons.prems obtain k where k: "find_if P xs = Some k" "i = Suc k" by auto
    from Cons.IH [OF k(1)] False k(2) show ?thesis
      by (auto simp: nth_Cons split: nat.splits)
  qed
qed

lemma find_if_None: "find_if P xs = None \<longleftrightarrow> (\<forall>x \<in> set xs. \<not> P x)"
  by (induction xs) auto

lemma seat_index_bounds:
  "1 \<le> n \<Longrightarrow> n \<le> 32 \<Longrightarrow> 0 \<le> seat_row n \<and> seat_row n < 8 \<and> 0 \<le> seat_col n \<and> seat_col n < 4"
  by (simp add: seat_row_div seat_col_mod) presburger

lemma seat_index_inj:
  assumes "1 \<le> n" "n \<le> 32" "1 \<le> m" "m \<le> 32" "seat_row n = seat_row m" "seat_col n = seat_col m"
  shows "n = m"
  using assms by (simp add: seat_row_div seat_col_mod) presburger

lemma getSeat_grid:
  assumes "grid_ok b" "1 \<le> n" "n \<le> 32"
  shows "getSeat b n = Some (seats b ! nat (seat_row n) ! nat (seat_col n))"
  using assms seat_index_bounds [of n]
  by (auto simp: getSeat_def seat_at_def grid_ok_def Let_def)

lemma grid_ok_set:
  assumes "grid_ok b"
  shows "grid_ok (set_passengerName b row col name)"
proof (cases "nat row < length (seats b)")
  case True
  then have "length (seats b ! nat row) = 4"
    using assms by (simp add: grid_ok_def)
  then show ?thesis using assms
    by (auto simp: grid_ok_def set_passengerName_def dest!: set_update_subset_insert [THEN subsetD])
next
  case False
  then have "(seats b)[nat row := r] = seats b" for r
    by (simp add: list_update_beyond)
  then show ?thesis using assms
    by (simp add: grid_ok_def set_passengerName_def)
qed

lemma getSeat_set:
  assumes "grid_ok b" "1 \<le> n" "n \<le> 32" "1 \<le> m" "m \<le> 32"
  shows "getSeat (set_passengerName b (seat_row n) (seat_col n) name) m =
    (if m = n then map_option (\<lambda>s. s\<lparr>passengerName := name\<rparr>) (getSeat b n) else getSeat b m)"
proof -
  note bn = seat_index_bounds [OF assms(2,3)] and bm = seat_index_bounds [OF assms(4,5)]
  show ?thesis
  proof (cases "m = n")
    case True
    then show ?thesis using assms bn
      by (simp add: getSeat_def seat_at_def set_passengerName_def grid_ok_def)
  next
    case False
    then have "seat_row n \<noteq> seat_row m \<or> seat_col n \<noteq> seat_col m"
      using seat_index_inj assms by blast
    then show ?thesis using assms bn bm False
      by (auto simp: getSeat_def seat_at_def set_passengerName_def grid_ok_def nth_list_update)
  qed
qed

lemma seat_index_nat:
  assumes "grid_ok b" "1 \<le> n" "n \<le> 32"
  shows "nat (seat_row n) < length (seats b)"
    and "nat (seat_col n) < length (seats b ! nat (seat_row n))"
proof -
  show r: "nat (seat_row n) < length (seats b)"
    using assms seat_index_bounds [of n] by (auto simp: grid_ok_def)
  then have "length (seats b ! nat (seat_row n)) = 4"
    using assms(1) by (simp add: grid_ok_def)
  then show "nat (seat_col n) < length (seats b ! nat (seat_row n))"
    using assms seat_index_bounds [of n] by auto
qed

lemma set_passengerName_same:
  assumes "grid_ok b" "1 \<le> n" "n \<le> 32" "getSeat b n = Some s" "passengerName s = name"
  shows "set_passengerName b (seat_row n) (seat_col n) name = b"
proof -
  let ?r = "nat (seat_row n)" and ?c = "nat (seat_col n)"
  have s: "seats b ! ?r ! ?c = s"
    using getSeat_grid [OF assms(1-3)] assms(4) by simp
  then have "(seats b ! ?r ! ?c)\<lparr>passengerName := name\<rparr> = seats b ! ?r ! ?c"
    using assms(5) by simp
  then have "(seats b ! ?r)[?c := (seats b ! ?r ! ?c)\<lparr>passengerName := name\<rparr>] = seats b ! ?r"
    by (simp only: list_update_id)
  then have "(seats b)[?r := (seats b ! ?r)[?c := (seats b ! ?r ! ?c)\<lparr>passengerName := name\<rparr>]] = seats b"
    by (simp only: list_update_id)
  then show ?thesis
    by (simp add: set_passengerName_def)
qed

lemma set_passengerName_twice:
  assumes "grid_ok b" "1 \<le> n" "n \<le> 32"
  shows "set_passengerName (set_passengerName b (seat_row n) (seat_col n) p) (seat_row n) (seat_col n) q =
   set_passengerName b (seat_row n) (seat_col n) q"
  using seat_index_nat [OF assms]
  by (simp add: set_passengerName_def)

lemma set_passengerName_fields:
  "(set_passengerName b row col name)\<lparr>seats := seats b\<rparr> = b"
  "busNumber (set_passengerName b row col name) = busNumber b"
  by (simp_all add: set_passengerName_def)

text \<open>What allotment does once the bus is found and the seat number is in range.\<close>

lemma allotment_found:
  assumes "number \<noteq> ''0''" "number \<noteq> []"
    and "find_if (\<lambda>b. getBusNumber b = number) busList = Some it"
    and "1 \<le> n" "n \<le> 32" "getSeat (busList ! it) n = Some s"
  shows "allotment busList number (Extracted n) passenger =
     (if passengerName s \<noteq> ''Empty'' then (AlreadyReserved (passengerName s), busList)
      else if passenger = ''0'' \<or> passenger = [] then (Cancelled, busList)
      else (Reserved n passenger (fare s),
            busList[it := set_passengerName (busList ! it) (seat_row n) (seat_col n) passenger]))"
  using assms by (simp add: allotment_def getSeat_def Let_def)

lemma cancelSeat_found:
  assumes "number \<noteq> ''0''" "number \<noteq> []"
    and "find_if (\<lambda>b. getBusNumber b = number) busList = Some it"
    and "1 \<le> n" "n \<le> 32" "getSeat (busList ! it) n = Some s"
  shows "cancelSeat busList number (Extracted n) confirm =
     (if passengerName s = ''Empty'' then (AlreadyEmpty, busList)
      else if tolower confirm \<noteq> CHR ''y'' then (Aborted, busList)
      else (Released n,
            busList[it := set_passengerName (busList ! it) (seat_row n) (seat_col n) ''Empty'']))"
  using assms by (simp add: cancelSeat_def getSeat_def Let_def)

lemma found_number:
  assumes "registry_ok busList" "find_if (\<lambda>b. getBusNumber b = number) busList = Some it"
  shows "it < length busList" "number \<noteq> ''0''" "number \<noteq> []" "grid_ok (busList ! it)"
    "busNumber (busList ! it) = number"
proof -
  from find_if_Some [OF assms(2)]
  have it: "it < length busList" and nm: "getBusNumber (busList ! it) = number" by auto
  then have "busList ! it \<in> set busList" by simp
  with assms(1) have ok: "grid_ok (busList ! it)" "fields_ok (busList ! it)"
    by (auto simp: registry_ok_def)
  show "it < length busList" by (rule it)
  show "grid_ok (busList ! it)" by (rule ok)
  show "busNumber (busList ! it) = number" using nm by (simp add: getBusNumber_def)
  show "number \<noteq> ''0''" "number \<noteq> []"
    using ok(2) nm by (auto simp: fields_ok_def getBusNumber_def)
qed

lemma find_if_update:
  assumes "find_if (\<lambda>b. getBusNumber b = number) busList = Some it"
    and "busNumber b' = busNumber (busList ! it)"
  shows "find_if (\<lambda>b. getBusNumber b = number) (busList[it := b']) = Some it"
  using assms
proof (induction busList arbitrary: it)
  case Nil
  then show ?case by simp
next
  case (Cons x xs)
  show ?case
  proof (cases "getBusNumber x = number")
    case True
    with Cons.prems show ?thesis by (simp add: getBusNumber_def)
  next
    case False
    with Cons.prems obtain k where k: "find_if (\<lambda>b. getBusNumber b = number) xs = Some k" "it = Suc k"
      by auto
    with Cons.IH [of k] Cons.prems(2) False show ?thesis by simp
  qed
qed

subsection \<open>The example registry\<close>

lemmas example_defs =
  busB1_def install_def Bus_ctor_def Seat_ctor_def getBusNumber_def registry_ok_def
  grid_ok_def fields_ok_def getSeat_def seat_at_def seat_row_def seat_col_def
  signed_divide_int_def signed_modulo_int_def

lemma busB1_ok: "registry_ok [busB1]"
  by (simp add: example_defs)

lemma busB1_found: "find_if (\<lambda>b. getBusNumber b = ''B1'') [busB1] = Some 0"
  by (simp add: example_defs)

lemma busB1_seat5: "getSeat ([busB1] ! 0) 5 = Some \<lparr>passengerName = ''Empty'', fare = 300\<rparr>"
  by (simp add: example_defs)

lemmas run_defs =
  registryAlice_def install_new_bus_def allotment_def cancelSeat_def set_passengerName_def Let_def

lemma registryAlice_ok: "registry_ok registryAlice"
  by code_simp

lemma registryAlice_found: "find_if (\<lambda>b. getBusNumber b = ''B1'') registryAlice = Some 0"
  by (simp add: run_defs example_defs)

lemma registryAlice_seat5:
  "getSeat (registryAlice ! 0) 5 = Some \<lparr>passengerName = ''Alice'', fare = 300\<rparr>"
  by (simp add: run_defs example_defs)

lemma registryAlice_nth: "registryAlice ! 0 \<in> set registryAlice"
  by (simp add: run_defs example_defs)

lemma busB1_route: "from_loc busB1 = ''Delhi''" "to_loc busB1 = ''Agra''"
  by (simp_all add: example_defs)

lemma busB1_grid_ok: "grid_ok busB1"
  by (simp add: example_defs)

section \<open>Reservation and cancellation\<close>

text \<open>
  C1. In a registry holding a bus with the given number (\<open>it\<close> is the position
  \<^verbatim>\<open>find_if\<close> returns), for a seat number from 1 to 32 whose seat reads "Empty" and a
  passenger name that is neither empty nor "0", \<^verbatim>\<open>allotment\<close> reports the reservation
  with the fare of that seat and stores the name in that seat. Every other seat of the
  bus, the other members of the bus, every other bus and the length of the registry
  stay as they were.
\<close>

theorem reserve_vacant_seat:
  assumes "registry_ok busList"
    and "find_if (\<lambda>b. getBusNumber b = number) busList = Some it"
    and "1 \<le> n" and "n \<le> 32"
    and "getSeat (busList ! it) n = Some s" and "passengerName s = ''Empty''"
    and "passenger \<noteq> []" and "passenger \<noteq> ''0''"
  shows "\<exists>busList'.
      allotment busList number (Extracted n) passenger = (Reserved n passenger (fare s), busList') \<and>
      getSeat (busList' ! it) n = Some (s\<lparr>passengerName := passenger\<rparr>) \<and>
      (\<forall>m. 1 \<le> m \<and> m \<le> 32 \<and> m \<noteq> n \<longrightarrow> getSeat (busList' ! it) m = getSeat (busList ! it) m) \<and>
      grid_ok (busList' ! it) \<and>
      (busList' ! it)\<lparr>seats := seats (busList ! it)\<rparr> = busList ! it \<and>
      length busList' = length busList \<and>
      (\<forall>j. j \<noteq> it \<longrightarrow> busList' ! j = busList ! j)"
proof -
  note f = found_number [OF assms(1,2)]
  let ?b' = "set_passengerName (busList ! it) (seat_row n) (seat_col n) passenger"
  let ?busList' = "busList[it := ?b']"
  have "allotment busList number (Extracted n) passenger = (Reserved n passenger (fare s), ?busList')"
    using allotment_found [OF f(2,3) assms(2,3,4,5)] assms(6,7,8) by simp
  moreover have "?busList' ! it = ?b'"
    using f(1) by simp
  moreover have "getSeat ?b' m =
      (if m = n then Some (s\<lparr>passengerName := passenger\<rparr>) else getSeat (busList ! it) m)"
    if "1 \<le> m" "m \<le> 32" for m
    using getSeat_set [OF f(4) assms(3,4) that] assms(5) by simp
  moreover have "grid_ok ?b'"
    using f(4) by (rule grid_ok_set)
  moreover have "?b'\<lparr>seats := seats (busList ! it)\<rparr> = busList ! it"
    by (rule set_passengerName_fields)
  ultimately show ?thesis
    using assms(3,4) by (intro exI [of _ ?busList']) simp
qed

theorem reserve_vacant_seat_witness:
  "registry_ok [busB1] \<and>
   find_if (\<lambda>b. getBusNumber b = ''B1'') [busB1] = Some 0 \<and>
   getSeat ([busB1] ! 0) 5 = Some \<lparr>passengerName = ''Empty'', fare = 300\<rparr> \<and>
   (\<exists>busList'.
      allotment [busB1] ''B1'' (Extracted 5) ''Alice'' = (Reserved 5 ''Alice'' 300, busList') \<and>
      getSeat (busList' ! 0) 5 = Some \<lparr>passengerName = ''Alice'', fare = 300\<rparr> \<and>
      getSeat (busList' ! 0) 6 = getSeat ([busB1] ! 0) 6 \<and>
      length busList' = 1)"
  using busB1_ok busB1_found busB1_seat5
    reserve_vacant_seat [OF busB1_ok busB1_found _ _ busB1_seat5, of "''Alice''"]
  by auto

text \<open>
  C2. For a seat number from 1 to 32 whose seat holds a name other than "Empty",
  \<^verbatim>\<open>allotment\<close> reports that name as the current occupant and returns the registry
  as it received it: occupant, fare and everything else are untouched.
\<close>

theorem reserve_occupied_seat:
  assumes "registry_ok busList"
    and "find_if (\<lambda>b. getBusNumber b = number) busList = Some it"
    and "1 \<le> n" and "n \<le> 32"
    and "getSeat (busList ! it) n = Some s" and "passengerName s \<noteq> ''Empty''"
  shows "allotment busList number (Extracted n) passenger =
           (AlreadyReserved (passengerName s), busList)"
  using allotment_found [OF found_number(2,3) [OF assms(1,2)] assms(2,3,4,5)] assms(6)
  by simp

theorem reserve_occupied_seat_witness:
  "registry_ok registryAlice \<and>
   find_if (\<lambda>b. getBusNumber b = ''B1'') registryAlice = Some 0 \<and>
   getSeat (registryAlice ! 0) 5 = Some \<lparr>passengerName = ''Alice'', fare = 300\<rparr> \<and>
   allotment registryAlice ''B1'' (Extracted 5) ''Bob'' = (AlreadyReserved ''Alice'', registryAlice)"
  using registryAlice_ok registryAlice_found registryAlice_seat5
    reserve_occupied_seat [OF registryAlice_ok registryAlice_found _ _ registryAlice_seat5, of "''Bob''"]
  by simp

text \<open>
  C3. Reserving a vacant seat and then cancelling it with an affirmative confirmation
  (\<^verbatim>\<open>tolower(confirm) == 'y'\<close>) gives the seat back as it was, vacant and with the
  same fare; the whole registry is the one before the reservation.
\<close>

theorem reserve_then_release:
  assumes "registry_ok busList"
    and "find_if (\<lambda>b. getBusNumber b = number) busList = Some it"
    and "1 \<le> n" and "n \<le> 32"
    and "getSeat (busList ! it) n = Some s" and "passengerName s = ''Empty''"
    and "passenger \<noteq> []" and "passenger \<noteq> ''0''"
    and "tolower confirm = CHR ''y''"
  shows "\<exists>busList' r busList2.
      allotment busList number (Extracted n) passenger = (Reserved n passenger (fare s), busList') \<and>
      cancelSeat busList' number (Extracted n) confirm = (r, busList2) \<and>
      (passenger \<noteq> ''Empty'' \<longrightarrow> r = Released n) \<and>
      getSeat (busList2 ! it) n = Some s \<and>
      busList2 = busList"
proof -
  note f = found_number [OF assms(1,2)]
  let ?b' = "set_passengerName (busList ! it) (seat_row n) (seat_col n) passenger"
  let ?busList' = "busList[it := ?b']"
  let ?s' = "s\<lparr>passengerName := passenger\<rparr>"
  have a: "allotment busList number (Extracted n) passenger = (Reserved n passenger (fare s), ?busList')"
    using allotment_found [OF f(2,3) assms(2,3,4,5)] assms(6,7,8) by simp
  have find': "find_if (\<lambda>b. getBusNumber b = number) ?busList' = Some it"
    using assms(2) by (rule find_if_update) (rule set_passengerName_fields)
  have nth': "?busList' ! it = ?b'"
    using f(1) by simp
  have seat': "getSeat (?busList' ! it) n = Some ?s'"
    using getSeat_set [OF f(4) assms(3,4,3,4), of passenger] assms(5) nth' by simp
  have undo: "set_passengerName ?b' (seat_row n) (seat_col n) ''Empty'' = busList ! it"
    using set_passengerName_twice [OF f(4) assms(3,4)]
      set_passengerName_same [OF f(4) assms(3,4,5,6)] by simp
  have c: "cancelSeat ?busList' number (Extracted n) confirm =
      (if passenger = ''Empty'' then (AlreadyEmpty, ?busList') else (Released n, busList))"
    using cancelSeat_found [OF f(2,3) find' assms(3,4) seat', of confirm] assms(9) nth' undo
    by simp
  have same: "passenger = ''Empty'' \<Longrightarrow> ?busList' = busList"
    using set_passengerName_same [OF f(4) assms(3,4,5)] assms(6) by simp
  show ?thesis
    using a c same assms(5) by (cases "passenger = ''Empty''") auto
qed

theorem reserve_then_release_witness:
  "registry_ok [busB1] \<and>
   find_if (\<lambda>b. getBusNumber b = ''B1'') [busB1] = Some 0 \<and>
   getSeat ([busB1] ! 0) 5 = Some \<lparr>passengerName = ''Empty'', fare = 300\<rparr> \<and>
   tolower CHR ''Y'' = CHR ''y'' \<and>
   (\<exists>busList'.
      allotment [busB1] ''B1'' (Extracted 5) ''Alice'' = (Reserved 5 ''Alice'' 300, busList') \<and>
      cancelSeat busList' ''B1'' (Extracted 5) CHR ''Y'' = (Released 5, [busB1]))"
proof -
  have y: "tolower CHR ''Y'' = CHR ''y''"
    by (simp add: tolower_def)
  from reserve_then_release [OF busB1_ok busB1_found _ _ busB1_seat5 _ _ _ y, of "''Alice''"]
  show ?thesis
    using busB1_ok busB1_found busB1_seat5 y by auto
qed

text \<open>
  C4. For a bus that is found and a seat number other than 0 outside 1..32, both
  \<^verbatim>\<open>allotment\<close> and \<^verbatim>\<open>cancelSeat\<close> report the invalid seat number and return the
  registry as it was.
\<close>

theorem seat_out_of_range:
  assumes "registry_ok busList"
    and "find_if (\<lambda>b. getBusNumber b = number) busList = Some it"
    and "n \<noteq> 0" and "n < 1 \<or> 32 < n"
  shows "allotment busList number (Extracted n) passenger = (InvalidSeat, busList) \<and>
         cancelSeat busList number (Extracted n) confirm = (InvalidSeat, busList)"
  using found_number(2,3) [OF assms(1,2)] assms(2,3,4)
  by (simp add: allotment_def cancelSeat_def)

theorem seat_out_of_range_witness:
  "registry_ok [busB1] \<and>
   find_if (\<lambda>b. getBusNumber b = ''B1'') [busB1] = Some 0 \<and>
   allotment [busB1] ''B1'' (Extracted 33) ''Alice'' = (InvalidSeat, [busB1]) \<and>
   cancelSeat [busB1] ''B1'' (Extracted 33) CHR ''y'' = (InvalidSeat, [busB1])"
  using busB1_ok busB1_found
    seat_out_of_range [OF busB1_ok busB1_found, of 33 "''Alice''" "CHR ''y''"]
  by simp

section \<open>Installing a bus\<close>

text \<open>
  C5. If any of the six answers to the prompts of \<^verbatim>\<open>install\<close> is empty or "0", case 1
  of the menu appends nothing: the registry after the attempt is the registry before.
\<close>

theorem install_cancelled_registry_unchanged:
  assumes "\<exists>f \<in> set [number, driver, arrival, departure, origin, dest]. f = [] \<or> f = ''0''"
  shows "install_new_bus busList number driver arrival departure origin dest = busList"
  using assms
  by (auto simp: install_new_bus_def install_def getBusNumber_def Let_def)

theorem install_cancelled_registry_unchanged_witness:
  "(\<exists>f \<in> set [''B2'', ''Sam'', [], ''11:00'', ''Agra'', ''Delhi'']. f = [] \<or> f = ''0'') \<and>
   install_new_bus [busB1] ''B2'' ''Sam'' [] ''11:00'' ''Agra'' ''Delhi'' = [busB1]"
proof -
  have h: "\<exists>f \<in> set [''B2'', ''Sam'', [], ''11:00'', ''Agra'', ''Delhi'']. f = [] \<or> f = ''0''"
    by simp
  from install_cancelled_registry_unchanged [OF h] h show ?thesis
    by blast
qed

section \<open>Searching by route\<close>

lemma search_loop_filter:
  "search_loop bs origin destination (foundAny, shown) =
     (foundAny \<or> (\<exists>b \<in> set bs. matchesRoute b origin destination),
      shown @ filter (\<lambda>b. matchesRoute b origin destination) bs)"
  by (induction bs arbitrary: foundAny shown) auto

text \<open>
  C6. The buses printed by \<^verbatim>\<open>searchBusesByRoute\<close> are exactly the registered buses
  whose origin and destination are equal, as strings, to the two answers, in the order
  of the registry. Equality of strings is equality of their characters: no change of
  case, no trimming.
\<close>

theorem search_by_route_filter:
  assumes "registry_ok busList"
  shows "buses_printed (searchBusesByRoute busList origin destination) =
           filter (\<lambda>b. from_loc b = origin \<and> to_loc b = destination) busList"
proof -
  let ?m = "filter (\<lambda>b. matchesRoute b origin destination) busList"
  have m: "?m = filter (\<lambda>b. from_loc b = origin \<and> to_loc b = destination) busList"
    by (simp add: matchesRoute_def)
  have none: "?m = []" if "origin = ''0'' \<or> origin = [] \<or> destination = ''0'' \<or> destination = []"
  proof -
    have "\<not> matchesRoute b origin destination" if "b \<in> set busList" for b
    proof -
      from assms that have "fields_ok b" by (simp add: registry_ok_def)
      then show ?thesis
        using \<open>origin = ''0'' \<or> origin = [] \<or> destination = ''0'' \<or> destination = []\<close>
        by (auto simp: fields_ok_def matchesRoute_def)
    qed
    then show ?thesis by (simp add: filter_empty_conv)
  qed
  have loop: "search_loop busList origin destination (False, []) = (?m \<noteq> [], ?m)"
    by (simp add: search_loop_filter filter_empty_conv)
  have "buses_printed (searchBusesByRoute busList origin destination) = ?m"
  proof (cases "busList = []")
    case True
    then show ?thesis by (simp add: searchBusesByRoute_def)
  next
    case False
    show ?thesis
    proof (cases "origin = ''0'' \<or> origin = [] \<or> destination = ''0'' \<or> destination = []")
      case True
      with none have "?m = []" by blast
      with True False show ?thesis
        by (auto simp: searchBusesByRoute_def)
    next
      case False
      with \<open>busList \<noteq> []\<close> loop show ?thesis
        by (cases "?m = []") (simp_all add: searchBusesByRoute_def)
    qed
  qed
  with m show ?thesis by simp
qed

theorem search_by_route_filter_witness:
  "registry_ok [busB1] \<and>
   buses_printed (searchBusesByRoute [busB1] ''Delhi'' ''Agra'') = [busB1] \<and>
   buses_printed (searchBusesByRoute [busB1] ''delhi'' ''Agra'') = [] \<and>
   buses_printed (searchBusesByRoute [busB1] ''Delhi '' ''Agra'') = []"
  using busB1_ok busB1_route
    search_by_route_filter [OF busB1_ok, of "''Delhi''" "''Agra''"]
    search_by_route_filter [OF busB1_ok, of "''delhi''" "''Agra''"]
    search_by_route_filter [OF busB1_ok, of "''Delhi ''" "''Agra''"]
  by simp

section \<open>Seat numbers and the grid\<close>

lemma seat_grid_bij: "bij_betw (\<lambda>n. (seat_row n, seat_col n)) {1..32} ({0..<8} \<times> {0..<4})"
proof (rule bij_betwI')
  fix x y :: int assume "x \<in> {1..32}" "y \<in> {1..32}"
  then show "((seat_row x, seat_col x) = (seat_row y, seat_col y)) = (x = y)"
    using seat_index_inj [of x y] by auto
next
  fix x :: int assume "x \<in> {1..32}"
  then show "(seat_row x, seat_col x) \<in> {0..<8} \<times> {0..<4}"
    using seat_index_bounds [of x] by simp
next
  fix y :: "int \<times> int" assume "y \<in> {0..<8} \<times> {0..<4}"
  then obtain r c where y: "y = (r, c)" "0 \<le> r" "r < 8" "0 \<le> c" "c < 4" by auto
  have "4 * r + c + 1 \<in> {1..32}" using y by auto
  moreover have "seat_row (4 * r + c + 1) = r" "seat_col (4 * r + c + 1) = c"
    using y by (auto simp: seat_row_div seat_col_mod)
  ultimately show "\<exists>x\<in>{1..32}. y = (seat_row x, seat_col x)" using y(1) by metis
qed

lemma allotment_in_grid:
  assumes "registry_ok busList" "1 \<le> n" "n \<le> 32"
  shows "fst (allotment busList number (Extracted n) passenger) \<notin> {OutOfGrid, InvalidSeat}"
proof (cases "find_if (\<lambda>b. getBusNumber b = number) busList")
  case None
  then show ?thesis by (simp add: allotment_def)
next
  case (Some it)
  note f = found_number [OF assms(1) Some]
  from getSeat_grid [OF f(4) assms(2,3)] obtain s where "getSeat (busList ! it) n = Some s" by simp
  from allotment_found [OF f(2,3) Some assms(2,3) this] show ?thesis by simp
qed

lemma cancelSeat_in_grid:
  assumes "registry_ok busList" "1 \<le> n" "n \<le> 32"
  shows "fst (cancelSeat busList number (Extracted n) confirm) \<notin> {OutOfGrid, InvalidSeat}"
proof (cases "find_if (\<lambda>b. getBusNumber b = number) busList")
  case None
  then show ?thesis by (simp add: cancelSeat_def)
next
  case (Some it)
  note f = found_number [OF assms(1) Some]
  from getSeat_grid [OF f(4) assms(2,3)] obtain s where "getSeat (busList ! it) n = Some s" by simp
  from cancelSeat_found [OF f(2,3) Some assms(2,3) this] show ?thesis by simp
qed

text \<open>
  C7. The row and column computed from a seat number map 1..32 one-to-one onto the
  8 by 4 grid. Hence, for a seat number in 1..32, every seat access of \<^verbatim>\<open>allotment\<close>
  and \<^verbatim>\<open>cancelSeat\<close> stays inside the vectors, and the branch for an invalid seat
  number is not taken.
\<close>

theorem seat_numbers_address_grid:
  "bij_betw (\<lambda>n. (seat_row n, seat_col n)) {1..32} ({0..<8} \<times> {0..<4}) \<and>
   (\<forall>b n. grid_ok b \<and> 1 \<le> n \<and> n \<le> 32 \<longrightarrow> getSeat b n \<noteq> None) \<and>
   (\<forall>busList number n passenger confirm. registry_ok busList \<and> 1 \<le> n \<and> n \<le> 32 \<longrightarrow>
      fst (allotment busList number (Extracted n) passenger) \<notin> {OutOfGrid, InvalidSeat} \<and>
      fst (cancelSeat busList number (Extracted n) confirm) \<notin> {OutOfGrid, InvalidSeat})"
  using seat_grid_bij getSeat_grid allotment_in_grid cancelSeat_in_grid
  by (intro conjI allI impI) simp_all

theorem seat_numbers_address_grid_witness:
  "grid_ok busB1 \<and> registry_ok [busB1] \<and> getSeat busB1 32 \<noteq> None \<and>
   fst (allotment [busB1] ''B1'' (Extracted 32) ''Alice'') \<notin> {OutOfGrid, InvalidSeat} \<and>
   fst (cancelSeat [busB1] ''B1'' (Extracted 32) CHR ''y'') \<notin> {OutOfGrid, InvalidSeat}"
  using busB1_grid_ok busB1_ok seat_numbers_address_grid
  by simp

section \<open>Invariants of the menu loop\<close>

lemma install_seats: "seats (install this number driver arrival departure origin dest) = seats this"
  by (simp add: install_def Let_def)

lemma install_fields_ok:
  "busNumber (install this number driver arrival departure origin dest) \<noteq> [] \<Longrightarrow>
   fields_ok (install this number driver arrival departure origin dest)"
  by (simp add: install_def Let_def fields_ok_def split: if_splits)

lemma Bus_ctor_seats: "seats Bus_ctor = replicate 8 (replicate 4 \<lparr>passengerName = ''Empty'', fare = 300\<rparr>)"
  by (simp add: Bus_ctor_def Seat_ctor_def)

lemma Bus_ctor_grid_ok: "grid_ok Bus_ctor"
  by (simp add: grid_ok_def Bus_ctor_seats)

lemma Bus_ctor_fares: "fares_default Bus_ctor"
  by (simp add: fares_default_def Bus_ctor_seats)

lemma fares_default_set:
  assumes "fares_default b"
  shows "fares_default (set_passengerName b row col name)"
proof -
  let ?r = "nat row" and ?c = "nat col"
  let ?s' = "(seats b ! ?r ! ?c)\<lparr>passengerName := name\<rparr>"
  show ?thesis
  proof (cases "?r < length (seats b) \<and> ?c < length (seats b ! ?r)")
    case True
    then have row: "seats b ! ?r \<in> set (seats b)" and seat: "seats b ! ?r ! ?c \<in> set (seats b ! ?r)"
      by simp_all
    with assms have "fare ?s' = 300"
      by (simp add: fares_default_def)
    moreover have "set ((seats b)[?r := (seats b ! ?r)[?c := ?s']]) \<subseteq>
        insert ((seats b ! ?r)[?c := ?s']) (set (seats b))"
      by (rule set_update_subset_insert)
    moreover have "set ((seats b ! ?r)[?c := ?s']) \<subseteq> insert ?s' (set (seats b ! ?r))"
      by (rule set_update_subset_insert)
    ultimately have sub:
      "\<And>r. r \<in> set ((seats b)[?r := (seats b ! ?r)[?c := ?s']]) \<Longrightarrow>
         r = (seats b ! ?r)[?c := ?s'] \<or> r \<in> set (seats b)"
      "\<And>s. s \<in> set ((seats b ! ?r)[?c := ?s']) \<Longrightarrow> s = ?s' \<or> s \<in> set (seats b ! ?r)"
      "fare ?s' = 300"
      by blast+
    have "fare s = 300"
      if r: "r \<in> set ((seats b)[?r := (seats b ! ?r)[?c := ?s']])" and s: "s \<in> set r" for r s
    proof (cases "r \<in> set (seats b)")
      case True
      with assms s show ?thesis by (simp add: fares_default_def)
    next
      case False
      with sub(1) [OF r] s have "s = ?s' \<or> s \<in> set (seats b ! ?r)"
        using sub(2) by blast
      with sub(3) assms row show ?thesis by (auto simp: fares_default_def)
    qed
    then show ?thesis
      by (simp add: fares_default_def set_passengerName_def)
  next
    case False
    then have "(seats b)[?r := (seats b ! ?r)[?c := ?s']] = seats b"
      by (cases "?r < length (seats b)") (simp_all add: list_update_beyond)
    then show ?thesis using assms
      by (simp add: fares_default_def set_passengerName_def)
  qed
qed

lemma fields_ok_set: "fields_ok (set_passengerName b row col name) = fields_ok b"
  by (simp add: fields_ok_def set_passengerName_def)

lemma allotment_state:
  "snd (allotment busList number seatInput passenger) = busList \<or>
   (\<exists>it row col. it < length busList \<and>
      snd (allotment busList number seatInput passenger) =
        busList[it := set_passengerName (busList ! it) row col passenger])"
proof (cases "find_if (\<lambda>b. getBusNumber b = number) busList")
  case None
  then show ?thesis by (simp add: allotment_def)
next
  case (Some it)
  then have it: "it < length busList"
    using find_if_Some by fast
  show ?thesis
  proof (cases seatInput)
    case ExtractFailed
    with Some show ?thesis by (simp add: allotment_def)
  next
    case (Extracted n)
    with Some have "snd (allotment busList number seatInput passenger) = busList \<or>
        snd (allotment busList number seatInput passenger) =
          busList[it := set_passengerName (busList ! it) (seat_row n) (seat_col n) passenger]"
      by (simp add: allotment_def Let_def split: option.splits)
    with it show ?thesis by blast
  qed
qed

lemma cancelSeat_state:
  "snd (cancelSeat busList number seatInput confirm) = busList \<or>
   (\<exists>it row col. it < length busList \<and>
      snd (cancelSeat busList number seatInput confirm) =
        busList[it := set_passengerName (busList ! it) row col ''Empty''])"
proof (cases "find_if (\<lambda>b. getBusNumber b = number) busList")
  case None
  then show ?thesis by (simp add: cancelSeat_def)
next
  case (Some it)
  then have it: "it < length busList"
    using find_if_Some by fast
  show ?thesis
  proof (cases seatInput)
    case ExtractFailed
    with Some show ?thesis by (simp add: cancelSeat_def)
  next
    case (Extracted n)
    with Some have "snd (cancelSeat busList number seatInput confirm) = busList \<or>
        snd (cancelSeat busList number seatInput confirm) =
          busList[it := set_passengerName (busList ! it) (seat_row n) (seat_col n) ''Empty'']"
      by (simp add: cancelSeat_def Let_def split: option.splits)
    with it show ?thesis by blast
  qed
qed

lemma update_keeps:
  assumes "\<forall>b \<in> set busList. grid_ok b \<and> fields_ok b \<and> fares_default b" "it < length busList"
  shows "\<forall>b \<in> set (busList[it := set_passengerName (busList ! it) row col name]).
           grid_ok b \<and> fields_ok b \<and> fares_default b"
proof
  fix b assume "b \<in> set (busList[it := set_passengerName (busList ! it) row col name])"
  then have "b = set_passengerName (busList ! it) row col name \<or> b \<in> set busList"
    using set_update_subset_insert by fastforce
  moreover have "busList ! it \<in> set busList" using assms(2) by simp
  ultimately show "grid_ok b \<and> fields_ok b \<and> fares_default b"
    using assms(1) by (auto simp: grid_ok_set fields_ok_set fares_default_set)
qed

lemma main_step_keeps:
  assumes "\<forall>b \<in> set busList. grid_ok b \<and> fields_ok b \<and> fares_default b"
  shows "\<forall>b \<in> set (main_step c busList). grid_ok b \<and> fields_ok b \<and> fares_default b"
proof (cases c)
  case (InstallNewBus number driver arrival departure origin dest)
  let ?new = "install Bus_ctor number driver arrival departure origin dest"
  have "grid_ok ?new" "fares_default ?new"
    using Bus_ctor_grid_ok Bus_ctor_fares by (simp_all add: grid_ok_def fares_default_def install_seats)
  then show ?thesis
    using assms InstallNewBus install_fields_ok [of Bus_ctor number driver arrival departure origin dest]
    by (auto simp: install_new_bus_def Let_def getBusNumber_def)
next
  case (ReserveSeat number seatInput passenger)
  then show ?thesis
    using assms allotment_state [of busList number seatInput passenger] update_keeps [OF assms]
    by auto
next
  case (CancelASeat number seatInput confirm)
  then show ?thesis
    using assms cancelSeat_state [of busList number seatInput confirm] update_keeps [OF assms]
    by auto
qed (use assms in simp_all)

lemma run_keeps:
  "\<forall>b \<in> set busList. grid_ok b \<and> fields_ok b \<and> fares_default b \<Longrightarrow>
   \<forall>b \<in> set (run cmds busList). grid_ok b \<and> fields_ok b \<and> fares_default b"
proof (induction cmds arbitrary: busList)
  case Nil
  then show ?case by simp
next
  case (Cons c cs)
  from main_step_keeps [OF Cons.prems] have "\<forall>b \<in> set (main_step c busList). grid_ok b \<and> fields_ok b \<and> fares_default b" .
  from Cons.IH [OF this] show ?case by simp
qed

lemma run_registry_ok: "registry_ok (run cmds [])"
  using run_keeps [of "[]" cmds] by (simp add: registry_ok_def)

lemma length_concat_rows: "\<forall>r \<in> set xs. length r = k \<Longrightarrow> length (concat xs) = k * length xs"
  by (induction xs) simp_all

lemma grid_ok_32: "grid_ok b \<Longrightarrow> length (concat (seats b)) = 32"
  using length_concat_rows [of "seats b" 4] by (simp add: grid_ok_def)

text \<open>
  C8. A bus as the constructor builds it has 8 rows of 4 seats, 32 in all, every one
  reading "Empty" with fare 300. In every registry the menu loop can reach from the
  empty one, whatever the choices and answers, every bus still has its 32 seats and
  every seat its fare of 300.
\<close>

theorem fares_stay_default:
  "grid_ok Bus_ctor \<and> length (concat (seats Bus_ctor)) = 32 \<and>
   (\<forall>s \<in> set (concat (seats Bus_ctor)). passengerName s = ''Empty'' \<and> fare s = 300) \<and>
   (\<forall>cmds. \<forall>b \<in> set (run cmds []).
      grid_ok b \<and> length (concat (seats b)) = 32 \<and> (\<forall>s \<in> set (concat (seats b)). fare s = 300))"
proof (intro conjI allI ballI)
  show "grid_ok Bus_ctor"
    by (rule Bus_ctor_grid_ok)
  then show "length (concat (seats Bus_ctor)) = 32"
    by (rule grid_ok_32)
next
  fix s assume "s \<in> set (concat (seats Bus_ctor))"
  then show "passengerName s = ''Empty''" "fare s = 300"
    by (simp_all add: Bus_ctor_seats)
next
  fix cmds b assume "b \<in> set (run cmds [])"
  with run_keeps [of "[]" cmds] have b: "grid_ok b" "fares_default b"
    by simp_all
  show "grid_ok b" by (rule b)
  then show "length (concat (seats b)) = 32" by (rule grid_ok_32)
  fix s assume "s \<in> set (concat (seats b))"
  with b(2) show "fare s = 300" by (auto simp: fares_default_def)
qed

theorem fares_stay_default_witness:
  "registryAlice ! 0 \<in> set registryAlice \<and>
   getSeat (registryAlice ! 0) 5 = Some \<lparr>passengerName = ''Alice'', fare = 300\<rparr> \<and>
   grid_ok (registryAlice ! 0) \<and>
   length (concat (seats (registryAlice ! 0))) = 32 \<and>
   list_all (\<lambda>s. fare s = 300) (concat (seats (registryAlice ! 0)))"
proof -
  have mem: "registryAlice ! 0 \<in>
      set (run [InstallNewBus ''B1'' ''Ravi'' ''09:00'' ''10:00'' ''Delhi'' ''Agra'',
                ReserveSeat ''B1'' (Extracted 5) ''Alice''] [])"
    by (subst registryAlice_def [symmetric]) (rule registryAlice_nth)
  from fares_stay_default have "\<forall>cmds. \<forall>b \<in> set (run cmds []).
      grid_ok b \<and> length (concat (seats b)) = 32 \<and> (\<forall>s \<in> set (concat (seats b)). fare s = 300)"
    by (elim conjE)
  from this [THEN spec, THEN bspec, OF mem] registryAlice_nth registryAlice_seat5
  show ?thesis by (simp add: list_all_iff)
qed

section \<open>Bus numbers in the registry\<close>

text \<open>
  C9. Installing two buses under the same number: case 1 of the menu appends both, so
  the registry holds two buses numbered "B1", and \<^verbatim>\<open>find_if\<close> answers with the first.
\<close>

theorem duplicate_bus_numbers:
  "(let busList = run [InstallNewBus ''B1'' ''Ravi'' ''09:00'' ''10:00'' ''Delhi'' ''Agra'',
                       InstallNewBus ''B1'' ''Sam'' ''12:00'' ''13:00'' ''Pune'' ''Goa''] []
    in map busNumber busList = [''B1'', ''B1''] \<and>
       \<not> distinct (map busNumber busList) \<and>
       find_if (\<lambda>b. getBusNumber b = ''B1'') busList = Some 0)"
  by (simp add: install_new_bus_def install_def getBusNumber_def Let_def)

section \<open>The name "Empty"\<close>

lemma show_seat_Some:
  "seat_at b (int i) (int j) = Some s \<Longrightarrow>
   show_seat b i j (Some (seatIndex, emptyCount, out)) =
     Some (seatIndex + 1, emptyCount + (if passengerName s = ''Empty'' then 1 else 0),
           out @ [(seatIndex, passengerName s, fare s)])"
  by (simp add: show_seat_def)

lemma seat_at_nth:
  "i < length (seats b) \<Longrightarrow> j < length (seats b ! i) \<Longrightarrow>
   seat_at b (int i) (int j) = Some (seats b ! i ! j)"
  by (simp add: seat_at_def)

lemma show_row:
  assumes "i < length (seats b)" "length (seats b ! i) = 4"
  shows "fold (show_seat b i) [0..<4] (Some (seatIndex, emptyCount, out)) =
     Some (seatIndex + 4,
           emptyCount + length (filter (\<lambda>s. passengerName s = ''Empty'') (seats b ! i)),
           out @ map (\<lambda>(k, s). (seatIndex + k, passengerName s, fare s)) (zip [0..3] (seats b ! i)))"
proof -
  from assms(2) obtain s0 s1 s2 s3 where row: "seats b ! i = [s0, s1, s2, s3]"
    by (auto simp: length_Suc_conv eval_nat_numeral)
  have at: "seat_at b (int i) (int 0) = Some s0" "seat_at b (int i) (int 1) = Some s1"
    "seat_at b (int i) (int 2) = Some s2" "seat_at b (int i) (int 3) = Some s3"
    using assms(1) row by (simp_all add: seat_at_def)
  have upt: "[0..<4] = [0, 1, 2, 3]"
    by (simp add: upt_rec)
  have upto: "[0..3] = [0, 1, 2, 3 :: int]"
    by (simp add: upto_rec1)
  show ?thesis
    unfolding upt upto row
    using at by (simp add: show_seat_Some)
qed

lemma show_details_count:
  assumes "grid_ok b"
  shows "map_option snd (show_details b) =
           Some (length (filter (\<lambda>s. passengerName s = ''Empty'') (concat (seats b))))"
proof -
  from assms have len: "length (seats b) = 8" and rows: "\<And>i. i < 8 \<Longrightarrow> length (seats b ! i) = 4"
    by (simp_all add: grid_ok_def)
  from len obtain r0 r1 r2 r3 r4 r5 r6 r7 where grid: "seats b = [r0, r1, r2, r3, r4, r5, r6, r7]"
    by (auto simp: length_Suc_conv eval_nat_numeral)
  have upt: "[0..<8] = [0, 1, 2, 3, 4, 5, 6, 7]"
    by (simp add: upt_rec)
  have step: "fold (show_seat b i) [0..<4] (Some (seatIndex, emptyCount, out)) =
     Some (seatIndex + 4,
           emptyCount + length (filter (\<lambda>s. passengerName s = ''Empty'') (seats b ! i)),
           out @ map (\<lambda>(k, s). (seatIndex + k, passengerName s, fare s)) (zip [0..3] (seats b ! i)))"
    if "i < 8" for i seatIndex emptyCount out
    using that len rows [OF that] by (intro show_row) simp_all
  have "map_option snd (show_details b) =
      Some (length (filter (\<lambda>s. passengerName s = ''Empty'') (seats b ! 0)) +
            length (filter (\<lambda>s. passengerName s = ''Empty'') (seats b ! 1)) +
            length (filter (\<lambda>s. passengerName s = ''Empty'') (seats b ! 2)) +
            length (filter (\<lambda>s. passengerName s = ''Empty'') (seats b ! 3)) +
            length (filter (\<lambda>s. passengerName s = ''Empty'') (seats b ! 4)) +
            length (filter (\<lambda>s. passengerName s = ''Empty'') (seats b ! 5)) +
            length (filter (\<lambda>s. passengerName s = ''Empty'') (seats b ! 6)) +
            length (filter (\<lambda>s. passengerName s = ''Empty'') (seats b ! 7)))"
    unfolding show_details_def upt by (simp add: step)
  also have "\<dots> = Some (length (filter (\<lambda>s. passengerName s = ''Empty'') (concat (seats b))))"
    unfolding grid by simp
  finally show ?thesis .
qed

lemma getSeat_in_concat:
  assumes "grid_ok b" "1 \<le> n" "n \<le> 32" "getSeat b n = Some s"
  shows "s \<in> set (concat (seats b))"
proof -
  from getSeat_grid [OF assms(1-3)] assms(4) have "s = seats b ! nat (seat_row n) ! nat (seat_col n)"
    by simp
  with seat_index_nat [OF assms(1-3)] show ?thesis
    by (auto intro!: bexI [of _ "seats b ! nat (seat_row n)"])
qed

text \<open>
  C10. A seat is vacant exactly when its name is the string "Empty". Reserving a vacant
  seat for the passenger name "Empty" succeeds and leaves the seat reading "Empty":
  a further reservation of the seat succeeds and stores the new name, a cancellation
  reports the seat as already empty, and the count of empty seats that \<^verbatim>\<open>show\<close>
  prints still counts the seat.
\<close>

theorem empty_name_reads_vacant:
  assumes "registry_ok busList"
    and "find_if (\<lambda>b. getBusNumber b = number) busList = Some it"
    and "1 \<le> n" and "n \<le> 32"
    and "getSeat (busList ! it) n = Some s" and "passengerName s = ''Empty''"
    and "passenger \<noteq> []" and "passenger \<noteq> ''0''"
  shows "\<exists>busList'.
      allotment busList number (Extracted n) ''Empty'' = (Reserved n ''Empty'' (fare s), busList') \<and>
      getSeat (busList' ! it) n = Some s \<and>
      (\<exists>busList2.
         allotment busList' number (Extracted n) passenger = (Reserved n passenger (fare s), busList2) \<and>
         getSeat (busList2 ! it) n = Some (s\<lparr>passengerName := passenger\<rparr>)) \<and>
      cancelSeat busList' number (Extracted n) confirm = (AlreadyEmpty, busList') \<and>
      map_option snd (show_details (busList' ! it)) =
        Some (length (filter (\<lambda>s. passengerName s = ''Empty'') (concat (seats (busList' ! it))))) \<and>
      s \<in> set (filter (\<lambda>s. passengerName s = ''Empty'') (concat (seats (busList' ! it)))) \<and>
      map_option snd (show_details (busList' ! it)) = map_option snd (show_details (busList ! it))"
proof -
  note f = found_number [OF assms(1,2)]
  have same: "busList[it := set_passengerName (busList ! it) (seat_row n) (seat_col n) ''Empty''] = busList"
    using set_passengerName_same [OF f(4) assms(3,4,5,6)] by simp
  have first: "allotment busList number (Extracted n) ''Empty'' = (Reserved n ''Empty'' (fare s), busList)"
    using allotment_found [OF f(2,3) assms(2,3,4,5), of "''Empty''"] assms(6) same by simp
  let ?busList2 = "busList[it := set_passengerName (busList ! it) (seat_row n) (seat_col n) passenger]"
  have second: "allotment busList number (Extracted n) passenger = (Reserved n passenger (fare s), ?busList2)"
    using allotment_found [OF f(2,3) assms(2,3,4,5), of passenger] assms(6,7,8) by simp
  have seat2: "getSeat (?busList2 ! it) n = Some (s\<lparr>passengerName := passenger\<rparr>)"
    using getSeat_set [OF f(4) assms(3,4,3,4), of passenger] assms(5) f(1) by simp
  have release: "cancelSeat busList number (Extracted n) confirm = (AlreadyEmpty, busList)"
    using cancelSeat_found [OF f(2,3) assms(2,3,4,5), of confirm] assms(6) by simp
  have count: "map_option snd (show_details (busList ! it)) =
      Some (length (filter (\<lambda>s. passengerName s = ''Empty'') (concat (seats (busList ! it)))))"
    using f(4) by (rule show_details_count)
  have counted: "s \<in> set (filter (\<lambda>s. passengerName s = ''Empty'') (concat (seats (busList ! it))))"
    using getSeat_in_concat [OF f(4) assms(3,4,5)] assms(6) by simp
  show ?thesis
    using first second seat2 release count counted assms(5)
    by (intro exI [of _ busList] conjI exI [of _ ?busList2]) simp_all
qed

theorem empty_name_reads_vacant_witness:
  "registry_ok [busB1] \<and>
   find_if (\<lambda>b. getBusNumber b = ''B1'') [busB1] = Some 0 \<and>
   getSeat ([busB1] ! 0) 5 = Some \<lparr>passengerName = ''Empty'', fare = 300\<rparr> \<and>
   (\<exists>busList'.
      allotment [busB1] ''B1'' (Extracted 5) ''Empty'' = (Reserved 5 ''Empty'' 300, busList') \<and>
      fst (allotment busList' ''B1'' (Extracted 5) ''Alice'') = Reserved 5 ''Alice'' 300 \<and>
      cancelSeat busList' ''B1'' (Extracted 5) CHR ''y'' = (AlreadyEmpty, busList') \<and>
      map_option snd (show_details (busList' ! 0)) = map_option snd (show_details ([busB1] ! 0)))"
  using busB1_ok busB1_found busB1_seat5
    empty_name_reads_vacant [OF busB1_ok busB1_found _ _ busB1_seat5, of "''Alice''" "CHR ''y''"]
  by auto

end
